theory Spec2Isabelle
  imports Main "HOL-Library.Sublist"
begin

section \<open>Values and errors of the module \<open>ceph/ceph.py\<close>\<close>

text \<open>
  The repository is Python 3 (its other modules use f-strings), and the module
  is modelled as Python 3 runs it.  The values a role argument can take are a
  \<^verbatim>\<open>str\<close>, a list, or \<^verbatim>\<open>None\<close>.  In Python 3 a \<^verbatim>\<open>str\<close> and a list both have the
  attribute \<^verbatim>\<open>__iter__\<close> and \<^verbatim>\<open>None\<close> has not, which is what
  \<^verbatim>\<open>hasattr(role, '__iter__')\<close> tests.  Python's \<^verbatim>\<open>==\<close> on these values is
  structural: a \<^verbatim>\<open>str\<close> never equals a list.
\<close>

datatype pyval = Str string | PList "pyval list" | PNone

fun has_iter :: "pyval \<Rightarrow> bool" where
  "has_iter (Str s) = True"
| "has_iter (PList xs) = True"
| "has_iter PNone = False"

text \<open>
  Truthiness (\<^verbatim>\<open>if role\<close>): the empty string, the empty list and \<^verbatim>\<open>None\<close> are
  false.
\<close>

fun truthy :: "pyval \<Rightarrow> bool" where
  "truthy (Str s) = (s \<noteq> [])"
| "truthy (PList xs) = (xs \<noteq> [])"
| "truthy PNone = False"

text \<open>
  Exceptions.  \<open>transport_error\<close> is what the SSH library (paramiko) raises:
  \<^verbatim>\<open>SSHException\<close> with its message, or any other exception.  \<open>error\<close> is what
  leaves a function of this module; \<^verbatim>\<open>CommandFailed\<close> is the exception class the
  module itself defines.
\<close>

datatype transport_error = SSHException string | OtherException string

datatype error =
    CommandFailed string
  | AttributeError string
  | ValueError string
  | TypeError string
  | Raised transport_error

text \<open>
  Iterating a value (\<^verbatim>\<open>for x in v\<close>): a list gives its elements, a \<^verbatim>\<open>str\<close> its
  characters as one-character strings, \<^verbatim>\<open>None\<close> raises \<^verbatim>\<open>TypeError\<close>.
\<close>

fun py_iter :: "pyval \<Rightarrow> error + pyval list" where
  "py_iter (Str s) = Inr (map (\<lambda>c. Str [c]) s)"
| "py_iter (PList xs) = Inr xs"
| "py_iter PNone = Inl (TypeError ''NoneType object is not iterable'')"

text \<open>
  Containment (\<^verbatim>\<open>x in v\<close>): in a list it is membership by \<^verbatim>\<open>==\<close>; in a \<^verbatim>\<open>str\<close>
  it is the substring test, which raises \<^verbatim>\<open>TypeError\<close> when \<^verbatim>\<open>x\<close> is not a
  \<^verbatim>\<open>str\<close>; in \<^verbatim>\<open>None\<close> it raises \<^verbatim>\<open>TypeError\<close>.
\<close>

fun py_in :: "pyval \<Rightarrow> pyval \<Rightarrow> error + bool" where
  "py_in x (PList ys) = Inr (x \<in> set ys)"
| "py_in (Str s) (Str t) = Inr (sublist s t)"
| "py_in x (Str t) = Inl (TypeError ''in <string> requires string as left operand'')"
| "py_in x PNone = Inl (TypeError ''argument of type NoneType is not iterable'')"

text \<open>
  \<^verbatim>\<open>all(x in v for x in xs)\<close>: the tests run in order and stop at the first
  that is false or raises.
\<close>

fun all_in :: "pyval list \<Rightarrow> pyval \<Rightarrow> error + bool" where
  "all_in [] v = Inr True"
| "all_in (x # xs) v =
     (case py_in x v of
        Inl e \<Rightarrow> Inl e
      | Inr b \<Rightarrow> (if b then all_in xs v else Inr False))"

text \<open>Only a \<^verbatim>\<open>str\<close> and \<^verbatim>\<open>None\<close> can be members of a \<^verbatim>\<open>set\<close>; a list is not hashable.\<close>

fun hashable :: "pyval \<Rightarrow> bool" where
  "hashable (Str s) = True"
| "hashable (PList xs) = False"
| "hashable PNone = True"

section \<open>RolesContainer\<close>

text \<open>
  The attribute \<^verbatim>\<open>role_list\<close> holds whatever the constructor was given: a
  list, or the \<^verbatim>\<open>str\<close> itself when the container is built from a bare string.
\<close>

record roles_container =
  role_list :: pyval

text \<open>
  \<^verbatim>\<open>
  def __init__(self, role='pool'):
      if hasattr(role, '__iter__'):
          self.role_list = role if len(role) > 0 else ['pool']
      else:
          self.role_list = [str(role)]
  \<close>
  \<^verbatim>\<open>str(None)\<close> is \<^verbatim>\<open>'None'\<close>.
\<close>

fun RolesContainer_init :: "pyval \<Rightarrow> roles_container" where
  "RolesContainer_init (PList role) =
     \<lparr>role_list = (if length role > 0 then PList role else PList [Str ''pool''])\<rparr>"
| "RolesContainer_init (Str role) =
     \<lparr>role_list = (if length role > 0 then Str role else PList [Str ''pool''])\<rparr>"
| "RolesContainer_init PNone = \<lparr>role_list = PList [Str ''None'']\<rparr>"

text \<open>
  \<^verbatim>\<open>
  def __eq__(self, role):
      if hasattr(role, '__iter__'):
          if all(atomic_role in role for atomic_role in self.role_list):
              return True
          else:
              return False
      else:
          if role in self.role_list:
              return True
          else:
              return False
  \<close>
\<close>

definition RolesContainer_eq :: "roles_container \<Rightarrow> pyval \<Rightarrow> error + bool" where
  "RolesContainer_eq self role =
     (if has_iter role then
        (case py_iter (role_list self) of
           Inl e \<Rightarrow> Inl e
         | Inr atomic_roles \<Rightarrow>
             (case all_in atomic_roles role of
                Inl e \<Rightarrow> Inl e
              | Inr b \<Rightarrow> Inr (if b then True else False)))
      else
        (case py_in role (role_list self) of
           Inl e \<Rightarrow> Inl e
         | Inr b \<Rightarrow> Inr (if b then True else False)))"


definition RolesContainer_extend ::
  "(pyval list \<Rightarrow> pyval list) \<Rightarrow> roles_container \<Rightarrow> pyval
     \<Rightarrow> (error + unit) \<times> roles_container" where
  "RolesContainer_extend list_of_set self iterable =
     (case role_list self of
        PList xs \<Rightarrow>
          (case py_iter iterable of
             Inl e \<Rightarrow> (Inl e, self)
           | Inr ys \<Rightarrow>
               (if list_all hashable (xs @ ys)
                then (Inr (), self\<lparr>role_list := PList (list_of_set (xs @ ys))\<rparr>)
                else (Inl (TypeError ''unhashable type: list''),
                      self\<lparr>role_list := PList (xs @ ys)\<rparr>)))
      | Str s \<Rightarrow> (Inl (AttributeError ''extend''), self)
      | PNone \<Rightarrow> (Inl (AttributeError ''extend''), self))"

section \<open>The cluster\<close>

text \<open>
  \<^verbatim>\<open>CephNode\<close> and the \<^verbatim>\<open>CephObject\<close> classes define no \<^verbatim>\<open>__eq__\<close>, so Python
  compares their instances by identity, in \<^verbatim>\<open>==\<close>, in \<^verbatim>\<open>in\<close> and in
  \<^verbatim>\<open>list.remove\<close>.  The identity of an object is a field of its record
  (\<open>oid\<close>, \<open>node_id\<close>), and every comparison the code leaves to Python is written
  on that field.
\<close>

datatype object_class =
    CephObject
  | CephDemon "bool option"  \<comment> \<open>the \<^verbatim>\<open>containerized\<close> attribute, \<^verbatim>\<open>None\<close> at creation\<close>
  | CephClient
  | CephInstaller

record ceph_object =
  oid :: nat
  cls :: object_class
  role :: pyval
  node :: nat  \<comment> \<open>reference to the owning node\<close>

record ceph_node =
  node_id :: nat
  ip_address :: string
  run_once :: bool
  exit_status :: "int option"  \<comment> \<open>the attribute does not exist before the first command\<close>
  ceph_object_list :: "ceph_object option list"  \<comment> \<open>an entry may be \<^verbatim>\<open>None\<close>\<close>

record ceph =
  name :: string
  node_list :: "ceph_node list"

text \<open>
  \<^verbatim>\<open>atomic_node in ceph_cluster\<close>: \<^verbatim>\<open>Ceph\<close> has \<^verbatim>\<open>__iter__\<close> and no
  \<^verbatim>\<open>__contains__\<close>, so Python walks \<^verbatim>\<open>iter(self.node_list)\<close> and compares.
\<close>

definition node_in :: "ceph_node \<Rightarrow> ceph \<Rightarrow> bool" where
  "node_in atomic_node ceph_cluster =
     list_ex (\<lambda>n. node_id n = node_id atomic_node) (node_list ceph_cluster)"

text \<open>
  \<^verbatim>\<open>
  def __eq__(self, ceph_cluster):
      if hasattr(ceph_cluster, 'node_list'):
          if all(atomic_node in ceph_cluster for atomic_node in self.node_list):
              return True
          else:
              return False
      else:
          return False
  \<close>
  The right operand is a cluster, or some object without a \<^verbatim>\<open>node_list\<close>.
\<close>

datatype operand = Cluster ceph | NoNodeList

fun Ceph_eq :: "ceph \<Rightarrow> operand \<Rightarrow> bool" where
  "Ceph_eq self (Cluster ceph_cluster) =
     (if list_all (\<lambda>atomic_node. node_in atomic_node ceph_cluster) (node_list self)
      then True else False)"
| "Ceph_eq self NoNodeList = False"

section \<open>The object factory\<close>

definition DEMON_ROLES :: "pyval list" where
  "DEMON_ROLES = [Str ''mon'', Str ''osd'', Str ''mgr'', Str ''rgw'', Str ''mds'']"

definition CLIENT_ROLES :: "pyval list" where
  "CLIENT_ROLES = [Str ''client'']"

text \<open>
  \<^verbatim>\<open>
  def create_ceph_object(self, role):
      if role == 'installer':
          return CephInstaller(role, self.node)
      if role == self.CLIENT_ROLES:
          return CephClient(role, self.node)
      if role in self.DEMON_ROLES:
          return CephDemon(role, self.node)
      if role != 'pool':
          return CephObject(role, self.node)
  \<close>
  The function falls off its end for the role \<^verbatim>\<open>'pool'\<close> and returns \<^verbatim>\<open>None\<close>.
  \<open>new\<close> is the identity of the object the call allocates.
\<close>

definition CephObjectFactory_create_ceph_object ::
  "nat \<Rightarrow> nat \<Rightarrow> pyval \<Rightarrow> ceph_object option" where
  "CephObjectFactory_create_ceph_object new self_node r =
     (if r = Str ''installer'' then
        Some \<lparr>oid = new, cls = CephInstaller, role = r, node = self_node\<rparr>
      else if r = PList CLIENT_ROLES then
        Some \<lparr>oid = new, cls = CephClient, role = r, node = self_node\<rparr>
      else if r \<in> set DEMON_ROLES then
        Some \<lparr>oid = new, cls = CephDemon None, role = r, node = self_node\<rparr>
      else if r \<noteq> Str ''pool'' then
        Some \<lparr>oid = new, cls = CephObject, role = r, node = self_node\<rparr>
      else None)"

section \<open>The node and its objects\<close>

text \<open>
  \<^verbatim>\<open>
  @property
  def role(self):
      return RolesContainer([ceph_demon.role for ceph_demon in self.ceph_object_list if ceph_demon])
  \<close>
  An object is true (its classes define neither \<^verbatim>\<open>__len__\<close> nor
  \<^verbatim>\<open>__nonzero__\<close>) and \<^verbatim>\<open>None\<close> is false.
\<close>

definition object_roles :: "ceph_object option list \<Rightarrow> pyval list" where
  "object_roles xs = [role ceph_demon. Some ceph_demon \<leftarrow> xs]"

definition CephNode_role :: "ceph_node \<Rightarrow> roles_container" where
  "CephNode_role self = RolesContainer_init (PList (object_roles (ceph_object_list self)))"

text \<open>
  A comprehension \<^verbatim>\<open>[d for d in self.ceph_object_list if ... d.role ...]\<close> reads
  the attribute \<^verbatim>\<open>role\<close> of every entry, in order; on a \<^verbatim>\<open>None\<close> entry that read
  raises \<^verbatim>\<open>AttributeError\<close>.
\<close>

fun select_objects ::
  "(pyval \<Rightarrow> bool) \<Rightarrow> ceph_object option list \<Rightarrow> error + ceph_object list" where
  "select_objects keep [] = Inr []"
| "select_objects keep (None # xs) = Inl (AttributeError ''role'')"
| "select_objects keep (Some d # xs) =
     (case select_objects keep xs of
        Inl e \<Rightarrow> Inl e
      | Inr ys \<Rightarrow> Inr (if keep (role d) then d # ys else ys))"

text \<open>The optional argument \<^verbatim>\<open>role=None\<close>, and its truth value in \<^verbatim>\<open>if role\<close>.\<close>

fun given :: "pyval option \<Rightarrow> bool" where
  "given None = False"
| "given (Some r) = truthy r"

text \<open>
  \<^verbatim>\<open>
  def get_ceph_demon(self, role=None):
      return [ceph_demon for ceph_demon in self.ceph_object_list
              if ceph_demon.role == role] if role else list()

  def get_ceph_objects(self, role=None):
      return [ceph_demon for ceph_demon in self.ceph_object_list
              if ceph_demon.role == role or not role]
  \<close>
\<close>

definition CephNode_get_ceph_demon :: "ceph_node \<Rightarrow> pyval option \<Rightarrow> error + ceph_object list" where
  "CephNode_get_ceph_demon self r =
     (if given r then select_objects (\<lambda>x. Some x = r) (ceph_object_list self)
      else Inr [])"

definition CephNode_get_ceph_objects :: "ceph_node \<Rightarrow> pyval option \<Rightarrow> error + ceph_object list" where
  "CephNode_get_ceph_objects self r =
     select_objects (\<lambda>x. Some x = r \<or> \<not> given r) (ceph_object_list self)"

text \<open>
  \<^verbatim>\<open>
  def create_ceph_object(self, role):
      self.ceph_object_list.append(CephObjectFactory(self).create_ceph_object(role))

  def remove_ceph_object(self, ceph_object):
      self.ceph_object_list.remove(ceph_object)
  \<close>
  \<^verbatim>\<open>list.remove\<close> deletes the first entry equal to its argument and raises
  \<^verbatim>\<open>ValueError\<close> when there is none.
\<close>

definition CephNode_create_ceph_object :: "nat \<Rightarrow> pyval \<Rightarrow> ceph_node \<Rightarrow> ceph_node" where
  "CephNode_create_ceph_object new r self =
     self\<lparr>ceph_object_list :=
       ceph_object_list self @ [CephObjectFactory_create_ceph_object new (node_id self) r]\<rparr>"

fun same_object :: "ceph_object option \<Rightarrow> ceph_object option \<Rightarrow> bool" where
  "same_object None None = True"
| "same_object (Some a) (Some b) = (oid a = oid b)"
| "same_object _ _ = False"

fun list_remove :: "ceph_object option list \<Rightarrow> ceph_object option \<Rightarrow> ceph_object option list option" where
  "list_remove [] x = None"
| "list_remove (y # ys) x =
     (if same_object y x then Some ys
      else (case list_remove ys x of None \<Rightarrow> None | Some zs \<Rightarrow> Some (y # zs)))"

definition CephNode_remove_ceph_object :: "ceph_object option \<Rightarrow> ceph_node \<Rightarrow> error + ceph_node" where
  "CephNode_remove_ceph_object ceph_object self =
     (case list_remove (ceph_object_list self) ceph_object of
        None \<Rightarrow> Inl (ValueError ''list.remove(x): x not in list'')
      | Some xs \<Rightarrow> Inr (self\<lparr>ceph_object_list := xs\<rparr>))"

text \<open>
  A sequence of calls on one node.  A \<^verbatim>\<open>remove_ceph_object\<close> that raises has
  changed nothing, and the caller goes on with the node as it was.
\<close>

datatype node_call = Create nat pyval | Remove "ceph_object option"

fun node_step :: "ceph_node \<Rightarrow> node_call \<Rightarrow> ceph_node" where
  "node_step self (Create new r) = CephNode_create_ceph_object new r self"
| "node_step self (Remove x) =
     (case CephNode_remove_ceph_object x self of Inl e \<Rightarrow> self | Inr self' \<Rightarrow> self')"

definition node_calls :: "ceph_node \<Rightarrow> node_call list \<Rightarrow> ceph_node" where
  "node_calls self cs = foldl node_step self cs"

section \<open>SSHConnectionManager\<close>

text \<open>
  Time is counted in seconds.  The remote host is an oracle: \<open>h i\<close> gives, for the
  \<open>i\<close>-th call of \<^verbatim>\<open>self.__client.connect(...)\<close> ever made, how long the call
  takes and the exception it raises, if any.  \<open>world\<close> holds the clock read by
  \<^verbatim>\<open>datetime.datetime.now()\<close>, the number of connection attempts made, and
  what the loop has logged and slept.  Time passes in a connection attempt and
  in \<^verbatim>\<open>sleep(10)\<close>; the two reads of the clock in one pass of the loop give the
  same instant.
\<close>

type_synonym host = "nat \<Rightarrow> nat \<times> transport_error option"

record ssh_connection_manager =
  vmname :: string
  outage_timeout :: int
  outage_start_time :: "int option"

record world =
  now :: int
  attempts :: nat
  warnings :: "transport_error list"
  sleeps :: "int list"

text \<open>
  \<^verbatim>\<open>
  def __connect(self):
      while True:
          try:
              self.__client.connect(self.vmname, ...)
              break
          except Exception as e:
              logger.warn('Connection outage: \n{error}'.format(error=e))
              if not self.__outage_start_time:
                  self.__outage_start_time = datetime.datetime.now()
              if datetime.datetime.now() - self.__outage_start_time > self.outage_timeout:
                  raise e
              sleep(10)
      self.__outage_start_time = None
  \<close>
  \<open>start\<close> is the value of \<^verbatim>\<open>self.__outage_start_time\<close> after the first \<^verbatim>\<open>if\<close>.
  The loop ends: every pass that does not leave it moves the clock ten seconds
  towards the deadline.
\<close>

function connect ::
  "host \<Rightarrow> ssh_connection_manager \<Rightarrow> world
     \<Rightarrow> (transport_error + unit) \<times> ssh_connection_manager \<times> world" where
  "connect h self w =
     (let w1 = w\<lparr>now := now w + int (fst (h (attempts w))), attempts := Suc (attempts w)\<rparr> in
      case snd (h (attempts w)) of
        None \<Rightarrow> (Inr (), self\<lparr>outage_start_time := None\<rparr>, w1)
      | Some e \<Rightarrow>
          (let w2 = w1\<lparr>warnings := warnings w1 @ [e]\<rparr>;
               start = (case outage_start_time self of None \<Rightarrow> now w2 | Some t \<Rightarrow> t);
               self1 = self\<lparr>outage_start_time := Some start\<rparr>
           in if now w2 - start > outage_timeout self1 then (Inl e, self1, w2)
              else connect h self1 (w2\<lparr>now := now w2 + 10, sleeps := sleeps w2 @ [10]\<rparr>)))"
  by pat_completeness auto
termination
  by (relation "measure (\<lambda>(h, self, w).
        case outage_start_time self of
          None \<Rightarrow> nat (outage_timeout self + 2)
        | Some t \<Rightarrow> nat (t + outage_timeout self + 11 - now w))")
     (auto split: option.splits)

declare connect.simps [simp del]

text \<open>
  The quantities the retry policy is stated with, for a call of \<open>connect\<close> in the
  world \<open>w\<close>: the outcome of its \<open>j\<close>-th attempt, the instant at which that
  attempt ends when every earlier one was followed by the ten-second sleep, and
  the instant of the first failure of the outage (the recorded one, or else the
  end of the first attempt).
\<close>

definition outcome :: "host \<Rightarrow> world \<Rightarrow> nat \<Rightarrow> transport_error option" where
  "outcome h w j = snd (h (attempts w + j))"

definition finished_at :: "host \<Rightarrow> world \<Rightarrow> nat \<Rightarrow> int" where
  "finished_at h w j = now w + (\<Sum>i\<le>j. int (fst (h (attempts w + i)))) + 10 * int j"

definition first_failure :: "host \<Rightarrow> ssh_connection_manager \<Rightarrow> world \<Rightarrow> int" where
  "first_failure h self w =
     (case outage_start_time self of None \<Rightarrow> finished_at h w 0 | Some t \<Rightarrow> t)"

section \<open>CephNode.exec_command\<close>

text \<open>
  The SSH side is an oracle, \<open>remote\<close>:
  \<^item> \<open>set_keepalive\<close>: what the two \<^verbatim>\<open>set_keepalive(15)\<close> calls raise, if anything;
  \<^item> \<open>exec_command sudo cmd timeout\<close>: what \<^verbatim>\<open>ssh().exec_command(cmd, timeout=timeout)\<close>
    does on the connection chosen by \<^verbatim>\<open>sudo\<close>: it raises, or returns the streams;
  \<^item> \<open>open_session sudo cmd\<close>: what opening a session channel and submitting the
    command does: it raises, or gives a channel.
  A channel is what the polling loop sees on each pass: the exit status is
  ready, or \<^verbatim>\<open>select\<close> returns and the lists \<^verbatim>\<open>rl\<close> and \<^verbatim>\<open>xl\<close> are each empty
  (\<open>None\<close>) or not, in which case \<^verbatim>\<open>channel.recv(1024)\<close> returns the data given.
  What \<^verbatim>\<open>recv\<close> returns is a \<^verbatim>\<open>bytes\<close> object; it is written here by its
  characters.  A stream is identified with the text that \<^verbatim>\<open>str(stream.read())\<close>
  gives.
\<close>

type_synonym bytes = string

record command_streams =
  stdout :: string
  stderr :: string
  recv_exit_status :: int  \<comment> \<open>\<^verbatim>\<open>stdout.channel.recv_exit_status()\<close>\<close>

datatype poll = ExitStatusReady int | Select "bytes option" "bytes option"

record remote =
  set_keepalive :: "transport_error option"
  exec_command :: "bool \<Rightarrow> string \<Rightarrow> int \<Rightarrow> transport_error + command_streams"
  open_session :: "bool \<Rightarrow> string \<Rightarrow> transport_error + (nat \<Rightarrow> poll)"

text \<open>A log record keeps the format string and its arguments.\<close>

datatype logarg = ArgS string | ArgI int

datatype log_record = Info string "logarg list" | Error string "logarg list"

text \<open>
  The keyword arguments.  \<^verbatim>\<open>kw.get('timeout')\<close> and \<^verbatim>\<open>kw.get('check_ec', True)\<close>
  may be absent; \<^verbatim>\<open>sudo\<close> and \<^verbatim>\<open>long_running\<close> are read for their truth value.
\<close>

record kw =
  cmd :: string
  sudo :: bool
  timeout :: "int option"
  check_ec :: "bool option"
  long_running :: bool

definition timeout_of :: "kw \<Rightarrow> int" where
  "timeout_of k = (case timeout k of None \<Rightarrow> 120 | Some t \<Rightarrow> if t \<noteq> 0 then t else 120)"

definition check_ec_of :: "kw \<Rightarrow> bool" where
  "check_ec_of k = (case check_ec k of None \<Rightarrow> True | Some b \<Rightarrow> b)"

text \<open>What the call returns: the two streams, or the pair of the long-running mode.\<close>

datatype returned = Streams string string | Output string int

text \<open>
  \<^verbatim>\<open>
  read = ''
  while True:
      if channel.exit_status_ready():
          ec = channel.recv_exit_status()
          break
      rl, wl, xl = select([channel], [], [channel], 4200)
      if len(rl) > 0:
          data = channel.recv(1024)
          read = read + data
          logger.info(data)
      if len(xl) > 0:
          data = channel.recv(1024)
          read = read + data
          logger.info(data)
  return read, ec
  \<close>
  \<^verbatim>\<open>read\<close> is a \<^verbatim>\<open>str\<close> and \<^verbatim>\<open>data\<close> is \<^verbatim>\<open>bytes\<close>: in Python 3 their sum
  raises \<^verbatim>\<open>TypeError\<close>, before the data is logged.  The loop runs for as long
  as the command does; a command that never ends and never writes gives \<open>None\<close>.
\<close>

definition str_plus_bytes :: "string \<Rightarrow> bytes \<Rightarrow> error + string" where
  "str_plus_bytes read data = Inl (TypeError ''can only concatenate str (not bytes) to str'')"

fun recv ::
  "bytes option \<Rightarrow> string \<times> log_record list \<Rightarrow> error + string \<times> log_record list" where
  "recv None (read, lg) = Inr (read, lg)"
| "recv (Some data) (read, lg) =
     (case str_plus_bytes read data of
        Inl e \<Rightarrow> Inl e
      | Inr read1 \<Rightarrow> Inr (read1, lg @ [Info data []]))"

partial_function (option) poll_channel ::
  "(nat \<Rightarrow> poll) \<Rightarrow> nat \<Rightarrow> string \<times> log_record list
     \<Rightarrow> ((error + string \<times> int) \<times> log_record list) option" where
  "poll_channel channel i acc =
     (case channel i of
        ExitStatusReady ec \<Rightarrow> Some (Inr (fst acc, ec), snd acc)
      | Select rl xl \<Rightarrow>
          (case recv rl acc of
             Inl e \<Rightarrow> Some (Inl e, snd acc)
           | Inr acc1 \<Rightarrow>
               (case recv xl acc1 of
                  Inl e \<Rightarrow> Some (Inl e, snd acc1)
                | Inr acc2 \<Rightarrow> poll_channel channel (Suc i) acc2)))"

text \<open>
  \<^verbatim>\<open>
  exit_status = stdout.channel.recv_exit_status()
  self.exit_status = exit_status
  if kw.get('check_ec', True):
      if exit_status == 0:
          logger.info("Command completed successfully")
      else:
          logger.error("Error during cmd %s, timeout %d", exit_status, timeout)
          raise CommandFailed(kw['cmd'] + " Error:  " + str(stderr.read()) + ' ' + str(self.ip_address))
      return stdout, stderr
  else:
      return stdout, stderr
  \<close>
  \<open>streams\<close> is \<open>None\<close> when \<^verbatim>\<open>stdout\<close> still holds its initial \<^verbatim>\<open>None\<close>; reading
  \<^verbatim>\<open>stdout.channel\<close> then raises \<^verbatim>\<open>AttributeError\<close>.
\<close>

definition read_exit_status ::
  "kw \<Rightarrow> ceph_node \<Rightarrow> log_record list \<Rightarrow> command_streams option
     \<Rightarrow> (error + returned) \<times> ceph_node \<times> log_record list" where
  "read_exit_status k self lg streams =
     (case streams of
        None \<Rightarrow> (Inl (AttributeError ''channel''), self, lg)
      | Some st \<Rightarrow>
          (let status = recv_exit_status st;
               self1 = self\<lparr>exit_status := Some status\<rparr>
           in if check_ec_of k then
                (if status = 0 then
                   (Inr (Streams (stdout st) (stderr st)), self1,
                    lg @ [Info ''Command completed successfully'' []])
                 else
                   (Inl (CommandFailed
                      (cmd k @ '' Error:  '' @ stderr st @ '' '' @ ip_address self)),
                    self1,
                    lg @ [Error ''Error during cmd %s, timeout %d'' [ArgI status, ArgI (timeout_of k)]]))
              else (Inr (Streams (stdout st) (stderr st)), self1, lg)))"

text \<open>
  \<^verbatim>\<open>
  logger.info("Running command %s on %s", kw['cmd'], self.ip_address)
  stdin = None
  stdout = None
  stderr = None
  if self.run_once:
      self.ssh_transport().set_keepalive(15)
      self.rssh_transport().set_keepalive(15)
  if kw.get('long_running'):
      logger.info("long running command --")
      channel = ssh().get_transport().open_session()
      channel.exec_command(kw['cmd'])
      ... the polling loop ...
      return read, ec
  try:
      stdin, stdout, stderr = ssh().exec_command(kw['cmd'], timeout=timeout)
  except SSHException as e:
      logger.error("Exception during cmd %s", str(e))
      if 'Timeout openning channel' in str(e):
          logger.error("channel reset error")
  ... the exit status, above ...
  \<close>
  The result is the value returned or the exception raised, the node (its
  \<^verbatim>\<open>exit_status\<close> attribute is written) and the log; \<open>None\<close> when the polling loop
  never ends.
\<close>

definition CephNode_exec_command ::
  "remote \<Rightarrow> kw \<Rightarrow> ceph_node
     \<Rightarrow> ((error + returned) \<times> ceph_node \<times> log_record list) option" where
  "CephNode_exec_command rem k self =
     (let lg = [Info ''Running command %s on %s'' [ArgS (cmd k), ArgS (ip_address self)]] in
      case (if run_once self then set_keepalive rem else None) of
        Some e \<Rightarrow> Some (Inl (Raised e), self, lg)
      | None \<Rightarrow>
          if long_running k then
            (let lg1 = lg @ [Info ''long running command --'' []] in
             case open_session rem (sudo k) (cmd k) of
               Inl e \<Rightarrow> Some (Inl (Raised e), self, lg1)
             | Inr channel \<Rightarrow>
                 (case poll_channel channel 0 ([], lg1) of
                    None \<Rightarrow> None
                  | Some (Inl e, lg2) \<Rightarrow> Some (Inl e, self, lg2)
                  | Some (Inr (read, ec), lg2) \<Rightarrow> Some (Inr (Output read ec), self, lg2)))
          else
            (case exec_command rem (sudo k) (cmd k) (timeout_of k) of
               Inr st \<Rightarrow> Some (read_exit_status k self lg (Some st))
             | Inl (SSHException m) \<Rightarrow>
                 (let lg1 = lg @ [Error ''Exception during cmd %s'' [ArgS m]];
                      lg2 = (if sublist ''Timeout openning channel'' m
                             then lg1 @ [Error ''channel reset error'' []] else lg1)
                  in Some (read_exit_status k self lg2 None))
             | Inl (OtherException m) \<Rightarrow> Some (Inl (Raised (OtherException m)), self, lg)))"

text \<open>A poll on which the command is still running and nothing is to be read.\<close>

fun quiet :: "poll \<Rightarrow> bool" where
  "quiet (Select None None) = True"
| "quiet _ = False"

section \<open>Example data\<close>

definition node1 :: ceph_node where
  "node1 = \<lparr>node_id = 1, ip_address = ''10.0.0.1'', run_once = False, exit_status = None,
             ceph_object_list = []\<rparr>"

definition node2 :: ceph_node where
  "node2 = \<lparr>node_id = 2, ip_address = ''10.0.0.2'', run_once = False, exit_status = None,
             ceph_object_list = []\<rparr>"

definition mon7 :: ceph_object where
  "mon7 = \<lparr>oid = 7, cls = CephDemon None, role = Str ''mon'', node = 1\<rparr>"

definition uptime :: kw where
  "uptime = \<lparr>cmd = ''uptime'', sudo = False, timeout = None, check_ec = None,
              long_running = False\<rparr>"

definition answering :: "transport_error + command_streams \<Rightarrow> remote" where
  "answering r = \<lparr>set_keepalive = None, exec_command = (\<lambda>sudo cmd timeout. r),
                   open_session = (\<lambda>sudo cmd. Inl (OtherException ''no session''))\<rparr>"

definition streaming :: "(nat \<Rightarrow> poll) \<Rightarrow> remote" where
  "streaming channel = \<lparr>set_keepalive = None,
                         exec_command = (\<lambda>sudo cmd timeout. Inl (OtherException ''no exec'')),
                         open_session = (\<lambda>sudo cmd. Inr channel)\<rparr>"

definition three_polls :: "nat \<Rightarrow> poll" where
  "three_polls i = (if i = 0 then Select (Some ''ab'') None
                    else if i = 1 then Select None (Some ''c'')
                    else ExitStatusReady 3)"

definition manager15 :: ssh_connection_manager where
  "manager15 = \<lparr>vmname = ''ceph-node1'', outage_timeout = 15, outage_start_time = None\<rparr>"

definition world0 :: world where
  "world0 = \<lparr>now = 0, attempts = 0, warnings = [], sleeps = []\<rparr>"

text \<open>
  A host that refuses every attempt after one second, and the world in which
  a manager with a tolerance of 15 gives up on it: first failure at 1, second
  at 12 (11 after the first, retried), third at 23 (22 after the first).
\<close>

definition down_host :: host where
  "down_host i = (1, Some (SSHException ''down''))"

definition world23 :: world where
  "world23 = \<lparr>now = 23, attempts = 3,
               warnings = [SSHException ''down'', SSHException ''down'', SSHException ''down''],
               sleeps = [10, 10]\<rparr>"

section \<open>Properties of RolesContainer\<close>

lemma all_in_PList: "all_in xs (PList c) = Inr (set xs \<subseteq> set c)"
  by (induction xs) auto

lemma all_in_Str: "all_in (map Str rs) (Str t) = Inr (\<forall>r \<in> set rs. sublist r t)"
  by (induction rs) auto

text \<open>
  C1 (as the code has it, for an argument that is a collection).  For a
  container built from a non-empty role collection \<open>R\<close> and an argument
  collection \<open>C\<close>, \<^verbatim>\<open>==\<close> returns, without raising, whether every element of \<open>R\<close>
  appears in \<open>C\<close>: the container is included in the argument, not the argument
  in the container.
\<close>

theorem roles_eq_collection:
  assumes "R \<noteq> []"
  shows "RolesContainer_eq (RolesContainer_init (PList R)) (PList C) = Inr (set R \<subseteq> set C)"
  using assms by (simp add: RolesContainer_eq_def all_in_PList)

theorem roles_eq_collection_witness:
  "RolesContainer_eq (RolesContainer_init (PList [Str ''mon'']))
       (PList [Str ''mon'', Str ''osd'']) = Inr True
   \<and> RolesContainer_eq (RolesContainer_init (PList [Str ''mon'', Str ''osd'']))
       (PList [Str ''mon'']) = Inr False"
  using roles_eq_collection [of "[Str ''mon'']" "[Str ''mon'', Str ''osd'']"]
    roles_eq_collection [of "[Str ''mon'', Str ''osd'']" "[Str ''mon'']"]
  by simp

text \<open>
  The claim as the specification words it (true iff every element of the
  argument appears in the container, vacuously so for the empty argument) fails:
  the container of \<^verbatim>\<open>['mon']\<close> does not equal the empty collection, although
  every element of the empty collection appears in \<^verbatim>\<open>['mon']\<close>.
\<close>

theorem roles_eq_argument_subset_counterexample:
  "\<not> (RolesContainer_eq (RolesContainer_init (PList [Str ''mon''])) (PList [])
       = Inr (set ([] :: pyval list) \<subseteq> set [Str ''mon'']))"
  by (simp add: RolesContainer_eq_def)

text \<open>
  An argument that is a single role string takes the same branch, since a
  \<^verbatim>\<open>str\<close> has \<^verbatim>\<open>__iter__\<close>: the test is whether every role of the container is a
  substring of the argument, not whether the argument is one of the roles.
\<close>

lemma roles_eq_single_role:
  "rs \<noteq> [] \<Longrightarrow>
   RolesContainer_eq (RolesContainer_init (PList (map Str rs))) (Str t)
     = Inr (\<forall>r \<in> set rs. sublist r t)"
  by (simp add: RolesContainer_eq_def all_in_Str)

lemma roles_eq_single_role_examples:
  "RolesContainer_eq (RolesContainer_init (PList [Str ''mon'', Str ''osd''])) (Str ''mon'')
     = Inr False"
  "RolesContainer_eq (RolesContainer_init (PList [Str ''mon''])) (Str ''monitor'') = Inr True"
  by (simp_all add: RolesContainer_eq_def sublist_Cons_right)




text \<open>
  The same call at concrete values, with \<^verbatim>\<open>list(set(...))\<close> keeping first
  occurrences in order.
\<close>

lemma extend_example:
  "RolesContainer_extend remdups \<lparr>role_list = PList [Str ''pool'']\<rparr>
      (PList [Str ''mon'', Str ''mon'', Str ''osd''])
     = (Inr (), \<lparr>role_list = PList [Str ''pool'', Str ''mon'', Str ''osd'']\<rparr>)"
  by (simp add: RolesContainer_extend_def)

section \<open>Properties of the cluster\<close>

lemma node_in_iff: "node_in n c \<longleftrightarrow> node_id n \<in> node_id ` set (node_list c)"
  unfolding node_in_def list_ex_iff image_iff by (auto intro: sym)

lemma Ceph_eq_Cluster:
  "Ceph_eq A (Cluster B) \<longleftrightarrow> node_id ` set (node_list A) \<subseteq> node_id ` set (node_list B)"
  by (auto simp: list_all_iff node_in_iff)

text \<open>
  C4.  Cluster equality is containment of the left operand in the right one:
  \<open>A == B\<close> is true iff every node of \<open>A\<close> is present in \<open>B\<close>.  When the nodes
  of \<open>A\<close> are a strict subset of those of \<open>B\<close>, \<open>A == B\<close> is true and \<open>B == A\<close>
  is false, so the equality is not symmetric.
\<close>

theorem Ceph_eq_asymmetric_containment:
  "(Ceph_eq A (Cluster B) \<longleftrightarrow> (\<forall>n \<in> set (node_list A). node_in n B))
   \<and> (node_id ` set (node_list A) \<subset> node_id ` set (node_list B)
        \<longrightarrow> Ceph_eq A (Cluster B) \<and> \<not> Ceph_eq B (Cluster A))
   \<and> \<not> (\<forall>X Y. Ceph_eq X (Cluster Y) \<longleftrightarrow> Ceph_eq Y (Cluster X))"
proof -
  let ?X = "\<lparr>name = ''a'', node_list = []\<rparr>"
  let ?Y = "\<lparr>name = ''b'', node_list = [node1]\<rparr>"
  have contained: "Ceph_eq A (Cluster B) \<longleftrightarrow> (\<forall>n \<in> set (node_list A). node_in n B)"
    by (simp add: list_all_iff)
  have strict: "node_id ` set (node_list A) \<subset> node_id ` set (node_list B)
        \<longrightarrow> Ceph_eq A (Cluster B) \<and> \<not> Ceph_eq B (Cluster A)"
    unfolding Ceph_eq_Cluster by auto
  have "Ceph_eq ?X (Cluster ?Y) \<and> \<not> Ceph_eq ?Y (Cluster ?X)"
    by (simp add: node_in_def)
  then have "\<not> (\<forall>X Y. Ceph_eq X (Cluster Y) \<longleftrightarrow> Ceph_eq Y (Cluster X))"
    by blast
  with contained strict show ?thesis by blast
qed

theorem Ceph_eq_asymmetric_containment_witness:
  "Ceph_eq \<lparr>name = ''a'', node_list = [node1]\<rparr>
      (Cluster \<lparr>name = ''b'', node_list = [node1, node2]\<rparr>)
   \<and> \<not> Ceph_eq \<lparr>name = ''b'', node_list = [node1, node2]\<rparr>
      (Cluster \<lparr>name = ''a'', node_list = [node1]\<rparr>)"
  using Ceph_eq_asymmetric_containment [of "\<lparr>name = ''a'', node_list = [node1]\<rparr>"
      "\<lparr>name = ''b'', node_list = [node1, node2]\<rparr>"]
  by (auto simp: node1_def node2_def)

section \<open>Properties of the object factory\<close>

text \<open>What the factory returns for a role string, case by case.\<close>

lemma factory_on_strings:
  "CephObjectFactory_create_ceph_object new n (Str s) =
     (if s = ''installer'' then Some \<lparr>oid = new, cls = CephInstaller, role = Str s, node = n\<rparr>
      else if s \<in> {''mon'', ''osd'', ''mgr'', ''rgw'', ''mds''}
        then Some \<lparr>oid = new, cls = CephDemon None, role = Str s, node = n\<rparr>
      else if s = ''pool'' then None
      else Some \<lparr>oid = new, cls = CephObject, role = Str s, node = n\<rparr>)"
  by (simp add: CephObjectFactory_create_ceph_object_def CLIENT_ROLES_def DEMON_ROLES_def)

text \<open>
  The client branch compares the role with the list \<^verbatim>\<open>CLIENT_ROLES\<close> itself, so
  it is taken for the list \<^verbatim>\<open>['client']\<close> and for no string.
\<close>

lemma factory_client_branch:
  "(\<exists>x. CephObjectFactory_create_ceph_object new n r = Some x \<and> cls x = CephClient)
     \<longleftrightarrow> r = PList [Str ''client'']"
  by (auto simp: CephObjectFactory_create_ceph_object_def CLIENT_ROLES_def DEMON_ROLES_def)

text \<open>
  C2, at the role \<^verbatim>\<open>'client'\<close>: the factory returns a generic object, not a
  client object.
\<close>

theorem factory_client_role_is_generic:
  "CephObjectFactory_create_ceph_object new n (Str ''client'')
     = Some \<lparr>oid = new, cls = CephObject, role = Str ''client'', node = n\<rparr>"
  by (simp add: CephObjectFactory_create_ceph_object_def CLIENT_ROLES_def DEMON_ROLES_def)

section \<open>Properties of the node\<close>

lemma object_roles_append: "object_roles (xs @ ys) = object_roles xs @ object_roles ys"
  by (simp add: object_roles_def)

text \<open>How the two calls change the roles of the objects on the node.\<close>

lemma object_roles_create:
  "object_roles (ceph_object_list (CephNode_create_ceph_object new r n))
     = object_roles (ceph_object_list n) @ (if r = Str ''pool'' then [] else [r])"
  by (simp add: CephNode_create_ceph_object_def object_roles_append object_roles_def
      CephObjectFactory_create_ceph_object_def DEMON_ROLES_def)

lemma list_remove_length:
  "list_remove xs x = Some ys \<Longrightarrow> length xs = Suc (length ys)"
  by (induction xs arbitrary: ys) (auto split: if_splits option.splits)

lemma list_remove_subset:
  "list_remove xs x = Some ys \<Longrightarrow> set ys \<subseteq> set xs"
  by (induction xs arbitrary: ys) (auto split: if_splits option.splits)

lemma remove_ceph_object_entries:
  assumes "CephNode_remove_ceph_object x n = Inr n'"
  shows "length (ceph_object_list n) = Suc (length (ceph_object_list n'))"
    and "set (ceph_object_list n') \<subseteq> set (ceph_object_list n)"
proof -
  from assms obtain ys where ys: "list_remove (ceph_object_list n) x = Some ys"
    and n': "n' = n\<lparr>ceph_object_list := ys\<rparr>"
    by (auto simp: CephNode_remove_ceph_object_def split: option.splits)
  show "length (ceph_object_list n) = Suc (length (ceph_object_list n'))"
    using list_remove_length [OF ys] by (simp add: n')
  show "set (ceph_object_list n') \<subseteq> set (ceph_object_list n)"
    using list_remove_subset [OF ys] by (simp add: n')
qed

text \<open>
  The role depends on nothing but the roles of the objects in the list: two
  nodes whose objects have the same roles read the same role.
\<close>

lemma role_depends_on_object_roles:
  "object_roles (ceph_object_list a) = object_roles (ceph_object_list b)
   \<Longrightarrow> CephNode_role a = CephNode_role b"
  by (simp add: CephNode_role_def)

text \<open>
  C8 (as the code has it).  The role of a node is computed from its object
  list at every read: after any sequence of \<^verbatim>\<open>create_ceph_object\<close> and
  \<^verbatim>\<open>remove_ceph_object\<close> calls it is the list of the roles of the objects then in
  the list, in order, and the list \<^verbatim>\<open>['pool']\<close> when there is no object.
\<close>

theorem role_derived_from_objects:
  "role_list (CephNode_role (node_calls n cs)) =
     PList (if object_roles (ceph_object_list (node_calls n cs)) = [] then [Str ''pool'']
            else object_roles (ceph_object_list (node_calls n cs)))"
  by (simp add: CephNode_role_def)

text \<open>
  The role is not exactly the roles of the objects: on a node whose only
  object was created and removed, no object is left and the role reads
  \<^verbatim>\<open>['pool']\<close>.
\<close>

theorem role_of_empty_node_counterexample:
  "role_list (CephNode_role (node_calls node1 [Create 7 (Str ''mon''), Remove (Some mon7)]))
     \<noteq> PList (object_roles (ceph_object_list
           (node_calls node1 [Create 7 (Str ''mon''), Remove (Some mon7)])))"
  by (simp add: node_calls_def node1_def mon7_def CephNode_role_def
      CephNode_create_ceph_object_def CephNode_remove_ceph_object_def
      CephObjectFactory_create_ceph_object_def DEMON_ROLES_def CLIENT_ROLES_def object_roles_def)

lemma select_objects_all_objects:
  "select_objects keep (map Some ds) = Inr (filter (\<lambda>d. keep (role d)) ds)"
  by (induction ds) auto

text \<open>
  Without a role \<^verbatim>\<open>get_ceph_demon\<close> returns the empty list, on every node.  On a
  node whose list holds objects only, \<^verbatim>\<open>get_ceph_objects\<close> without a role returns
  all of them and \<^verbatim>\<open>get_ceph_demon\<close> with a role returns those of that role.
\<close>

lemma get_ceph_demon_no_role: "CephNode_get_ceph_demon n None = Inr []"
  by (simp add: CephNode_get_ceph_demon_def)

lemma get_ceph_objects_no_role:
  "ceph_object_list n = map Some ds \<Longrightarrow> CephNode_get_ceph_objects n None = Inr ds"
  by (simp add: CephNode_get_ceph_objects_def select_objects_all_objects)

lemma get_ceph_demon_role:
  "ceph_object_list n = map Some ds \<Longrightarrow> truthy r \<Longrightarrow>
   CephNode_get_ceph_demon n (Some r) = Inr (filter (\<lambda>d. role d = r) ds)"
  by (simp add: CephNode_get_ceph_demon_def select_objects_all_objects)

text \<open>
  C10, on a node that was given the role \<^verbatim>\<open>'pool'\<close> by \<^verbatim>\<open>create_ceph_object\<close>:
  the factory returned \<^verbatim>\<open>None\<close>, the node appended it, and both queries raise
  \<^verbatim>\<open>AttributeError\<close> on that entry instead of returning objects.
\<close>

theorem get_ceph_demon_raises_on_pool_entry:
  "ceph_object_list (node_calls node1 [Create 7 (Str ''mon''), Create 8 (Str ''pool'')])
     = [Some mon7, None]
   \<and> CephNode_get_ceph_demon
       (node_calls node1 [Create 7 (Str ''mon''), Create 8 (Str ''pool'')]) (Some (Str ''mon''))
     = Inl (AttributeError ''role'')
   \<and> CephNode_get_ceph_objects
       (node_calls node1 [Create 7 (Str ''mon''), Create 8 (Str ''pool'')]) None
     = Inl (AttributeError ''role'')"
  by (simp add: node_calls_def node1_def mon7_def CephNode_create_ceph_object_def
      CephObjectFactory_create_ceph_object_def DEMON_ROLES_def CLIENT_ROLES_def
      CephNode_get_ceph_demon_def CephNode_get_ceph_objects_def)

section \<open>Properties of the connection loop\<close>

lemma finished_at_shift:
  "finished_at h (w\<lparr>attempts := Suc (attempts w), warnings := ws,
       now := now w + int (fst (h (attempts w))) + 10, sleeps := sl\<rparr>) j
     = finished_at h w (Suc j)"
proof -
  have "(\<Sum>i\<le>Suc j. int (fst (h (attempts w + i))))
        = int (fst (h (attempts w))) + (\<Sum>i\<le>j. int (fst (h (attempts w + Suc i))))"
    by (simp add: sum.atMost_Suc_shift del: sum.atMost_Suc)
  then show ?thesis
    by (simp add: finished_at_def)
qed

text \<open>
  The loop, characterised by the number \<open>k\<close> of failed attempts that were
  retried.  The proof follows the recursion of \<open>connect\<close>: a pass that sleeps
  and retries shifts every instant by one attempt.
\<close>

lemma connect_characterised:
  "\<exists>k. (\<forall>j<k. outcome h w j \<noteq> None
            \<and> finished_at h w j - first_failure h self w \<le> outage_timeout self)
     \<and> attempts (snd (snd (connect h self w))) = attempts w + k + 1
     \<and> now (snd (snd (connect h self w))) = finished_at h w k
     \<and> sleeps (snd (snd (connect h self w))) = sleeps w @ replicate k 10
     \<and> (case outcome h w k of
          None \<Rightarrow> fst (connect h self w) = Inr ()
                  \<and> outage_start_time (fst (snd (connect h self w))) = None
        | Some e \<Rightarrow> fst (connect h self w) = Inl e
                  \<and> outage_start_time (fst (snd (connect h self w)))
                      = Some (first_failure h self w)
                  \<and> finished_at h w k - first_failure h self w > outage_timeout self)"
proof (induction h self w rule: connect.induct)
  case (1 h self w)
  show ?case
  proof (cases "snd (h (attempts w))")
    case None
    then show ?thesis
      by (intro exI [of _ 0]) (simp add: connect.simps [of h self w] outcome_def finished_at_def)
  next
    case (Some e)
    define start where "start = first_failure h self w"
    have start: "start = (case outage_start_time self of
                            None \<Rightarrow> now w + int (fst (h (attempts w))) | Some t \<Rightarrow> t)"
      by (simp add: start_def first_failure_def finished_at_def split: option.splits)
    show ?thesis
    proof (cases "now w + int (fst (h (attempts w))) - start > outage_timeout self")
      case True
      with Some start show ?thesis
        by (intro exI [of _ 0])
           (simp add: connect.simps [of h self w] outcome_def finished_at_def
              start_def [symmetric] Let_def cong: option.case_cong)
    next
      case False
      let ?self1 = "self\<lparr>outage_start_time := Some start\<rparr>"
      let ?w3 = "w\<lparr>attempts := Suc (attempts w), warnings := warnings w @ [e],
                   now := now w + int (fst (h (attempts w))) + 10, sleeps := sleeps w @ [10]\<rparr>"
      have unfold: "connect h self w = connect h ?self1 ?w3"
        using Some False start
        by (subst connect.simps) (simp add: Let_def cong: option.case_cong)
      have ff: "first_failure h ?self1 ?w3 = start"
        by (simp add: first_failure_def)
      have fa: "\<And>j. finished_at h ?w3 j = finished_at h w (Suc j)"
        by (rule finished_at_shift)
      have oc: "\<And>j. outcome h ?w3 j = outcome h w (Suc j)"
        by (simp add: outcome_def)
      have "\<exists>k. (\<forall>j<k. outcome h ?w3 j \<noteq> None
              \<and> finished_at h ?w3 j - first_failure h ?self1 ?w3 \<le> outage_timeout ?self1)
         \<and> attempts (snd (snd (connect h ?self1 ?w3))) = attempts ?w3 + k + 1
         \<and> now (snd (snd (connect h ?self1 ?w3))) = finished_at h ?w3 k
         \<and> sleeps (snd (snd (connect h ?self1 ?w3))) = sleeps ?w3 @ replicate k 10
         \<and> (case outcome h ?w3 k of
              None \<Rightarrow> fst (connect h ?self1 ?w3) = Inr ()
                      \<and> outage_start_time (fst (snd (connect h ?self1 ?w3))) = None
            | Some e \<Rightarrow> fst (connect h ?self1 ?w3) = Inl e
                      \<and> outage_start_time (fst (snd (connect h ?self1 ?w3)))
                          = Some (first_failure h ?self1 ?w3)
                      \<and> finished_at h ?w3 k - first_failure h ?self1 ?w3
                          > outage_timeout ?self1)"
        using "1.IH" [OF refl Some refl refl refl] False start
        by (simp add: Let_def cong: option.case_cong)
      then obtain k where k:
        "\<forall>j<k. outcome h w (Suc j) \<noteq> None
               \<and> finished_at h w (Suc j) - start \<le> outage_timeout self"
        "attempts (snd (snd (connect h self w))) = attempts w + Suc k + 1"
        "now (snd (snd (connect h self w))) = finished_at h w (Suc k)"
        "sleeps (snd (snd (connect h self w))) = sleeps w @ replicate (Suc k) 10"
        "(case outcome h w (Suc k) of
            None \<Rightarrow> fst (connect h self w) = Inr ()
                    \<and> outage_start_time (fst (snd (connect h self w))) = None
          | Some e \<Rightarrow> fst (connect h self w) = Inl e
                    \<and> outage_start_time (fst (snd (connect h self w))) = Some start
                    \<and> finished_at h w (Suc k) - start > outage_timeout self)"
        unfolding ff fa oc unfold [symmetric]
        by (auto simp: replicate_append_same cong: option.case_cong)
      have zero: "outcome h w 0 \<noteq> None \<and> finished_at h w 0 - start \<le> outage_timeout self"
        using Some False by (simp add: outcome_def finished_at_def)
      have "\<forall>j<Suc k. outcome h w j \<noteq> None
                \<and> finished_at h w j - start \<le> outage_timeout self"
      proof (intro allI impI)
        fix j assume "j < Suc k"
        then show "outcome h w j \<noteq> None \<and> finished_at h w j - start \<le> outage_timeout self"
          using zero k(1) by (cases j) auto
      qed
      with k(2-5) show ?thesis
        unfolding start_def by (intro exI [of _ "Suc k"]) simp
    qed
  qed
qed

text \<open>
  C5.  A call of the connection loop makes \<open>k + 1\<close> attempts for some \<open>k\<close>:
  each of the first \<open>k\<close> fails no later than the outage tolerance after the
  first failure and is followed by a sleep of 10, so that the attempts are
  10 apart; the last one either succeeds, and the first-failure timestamp is
  cleared, or fails later than the tolerance after the first failure, and its
  error is raised with the first-failure timestamp left recorded.
\<close>

theorem connect_outage_policy:
  assumes "connect h self w = (res, self', w')"
  shows "\<exists>k. (\<forall>j<k. outcome h w j \<noteq> None
            \<and> finished_at h w j - first_failure h self w \<le> outage_timeout self)
     \<and> attempts w' = attempts w + k + 1
     \<and> now w' = finished_at h w k
     \<and> sleeps w' = sleeps w @ replicate k 10
     \<and> (case outcome h w k of
          None \<Rightarrow> res = Inr () \<and> outage_start_time self' = None
        | Some e \<Rightarrow> res = Inl e
                  \<and> outage_start_time self' = Some (first_failure h self w)
                  \<and> finished_at h w k - first_failure h self w > outage_timeout self)"
  using connect_characterised [of h w self] unfolding assms
  by (simp cong: option.case_cong)

lemma connect_always_failing:
  "connect down_host manager15 world0
     = (Inl (SSHException ''down''), manager15\<lparr>outage_start_time := Some 1\<rparr>, world23)"
  by (simp add: connect.simps down_host_def manager15_def world0_def world23_def Let_def)

theorem connect_outage_policy_witness:
  "\<exists>k. (\<forall>j<k. outcome down_host world0 j \<noteq> None
            \<and> finished_at down_host world0 j - first_failure down_host manager15 world0
                \<le> outage_timeout manager15)
     \<and> attempts world23 = attempts world0 + k + 1
     \<and> now world23 = finished_at down_host world0 k
     \<and> sleeps world23 = sleeps world0 @ replicate k 10
     \<and> (case outcome down_host world0 k of
          None \<Rightarrow> Inl (SSHException ''down'') = Inr ()
                  \<and> outage_start_time (manager15\<lparr>outage_start_time := Some 1\<rparr>) = None
        | Some e \<Rightarrow> (Inl (SSHException ''down'') :: transport_error + unit) = Inl e
                  \<and> outage_start_time (manager15\<lparr>outage_start_time := Some 1\<rparr>)
                      = Some (first_failure down_host manager15 world0)
                  \<and> finished_at down_host world0 k - first_failure down_host manager15 world0
                      > outage_timeout manager15)"
  by (rule connect_outage_policy [OF connect_always_failing])

section \<open>Properties of exec_command\<close>

text \<open>
  The polling loop on a channel that delivers nothing for \<open>n\<close> polls: it
  returns the empty output and the exit status when the status is ready next,
  and raises \<^verbatim>\<open>TypeError\<close> when data arrives next.
\<close>

lemma poll_channel_quiet:
  "(\<forall>j<n. quiet (channel (i + j))) \<Longrightarrow>
   poll_channel channel i acc = poll_channel channel (i + n) acc"
proof (induction n arbitrary: i)
  case 0
  then show ?case by simp
next
  case (Suc n)
  from Suc.prems have "quiet (channel i)"
    by (metis add.right_neutral zero_less_Suc)
  then have sel: "channel i = Select None None"
    by (cases "channel i" rule: quiet.cases) auto
  have "\<forall>j<n. quiet (channel (Suc i + j))"
  proof (intro allI impI)
    fix j assume "j < n"
    then have "quiet (channel (i + Suc j))"
      using Suc.prems by (meson Suc_less_eq)
    then show "quiet (channel (Suc i + j))" by simp
  qed
  from Suc.IH [OF this] have "poll_channel channel (Suc i) acc
      = poll_channel channel (i + Suc n) acc"
    by simp
  then show ?case
    by (subst poll_channel.simps) (cases acc, simp add: sel)
qed

lemma poll_channel_exit:
  "channel i = ExitStatusReady ec \<Longrightarrow>
   poll_channel channel i acc = Some (Inr (fst acc, ec), snd acc)"
  by (subst poll_channel.simps) simp

lemma poll_channel_data:
  "channel i = Select rl xl \<Longrightarrow> rl \<noteq> None \<or> xl \<noteq> None \<Longrightarrow>
   poll_channel channel i acc
     = Some (Inl (TypeError ''can only concatenate str (not bytes) to str''), snd acc)"
  by (subst poll_channel.simps)
     (cases acc; cases rl; cases xl; simp add: str_plus_bytes_def)

lemma exec_long_ignores_check_ec:
  "long_running k \<Longrightarrow>
   CephNode_exec_command rem (k\<lparr>check_ec := c\<rparr>) self = CephNode_exec_command rem k self"
  by (simp add: CephNode_exec_command_def Let_def cong: option.case_cong if_cong)

lemma recv_error:
  "recv x acc = Inl e \<Longrightarrow> e = TypeError ''can only concatenate str (not bytes) to str''"
  by (cases x; cases acc) (auto simp: str_plus_bytes_def)

lemma poll_channel_error:
  assumes "poll_channel channel i acc = Some y"
  shows "case fst y of
           Inl e \<Rightarrow> e = TypeError ''can only concatenate str (not bytes) to str''
         | Inr r \<Rightarrow> True"
proof (rule poll_channel.raw_induct [OF _ assms])
  fix f :: "(nat \<Rightarrow> poll) \<Rightarrow> nat \<Rightarrow> string \<times> log_record list
              \<Rightarrow> ((error + string \<times> int) \<times> log_record list) option"
    and channel i acc y
  assume IH: "\<And>channel i acc y. f channel i acc = Some y \<Longrightarrow>
      (case fst y of
         Inl e \<Rightarrow> e = TypeError ''can only concatenate str (not bytes) to str''
       | Inr r \<Rightarrow> True)"
  assume step: "(case channel i of
        ExitStatusReady ec \<Rightarrow> Some (Inr (fst acc, ec), snd acc)
      | Select rl xl \<Rightarrow>
          (case recv rl acc of
             Inl e \<Rightarrow> Some (Inl e, snd acc)
           | Inr acc1 \<Rightarrow>
               (case recv xl acc1 of
                  Inl e \<Rightarrow> Some (Inl e, snd acc1)
                | Inr acc2 \<Rightarrow> f channel (Suc i) acc2))) = Some y"
  show "case fst y of
          Inl e \<Rightarrow> e = TypeError ''can only concatenate str (not bytes) to str''
        | Inr r \<Rightarrow> True"
  proof (cases "channel i")
    case (ExitStatusReady ec)
    with step show ?thesis by auto
  next
    case (Select rl xl)
    show ?thesis
    proof (cases "recv rl acc")
      case (Inl e)
      with step Select show ?thesis by (auto dest: recv_error)
    next
      case first: (Inr acc1)
      show ?thesis
      proof (cases "recv xl acc1")
        case (Inl e)
        with step Select first show ?thesis by (auto dest: recv_error)
      next
        case second: (Inr acc2)
        from step Select first second have "f channel (Suc i) acc2 = Some y"
          by simp
        then show ?thesis by (rule IH)
      qed
    qed
  qed
qed

lemma exec_long_never_command_failed:
  "long_running k \<Longrightarrow> CephNode_exec_command rem k self \<noteq> Some (Inl (CommandFailed msg), s, l)"
  by (auto simp: CephNode_exec_command_def Let_def
      split: option.splits sum.splits prod.splits dest: poll_channel_error)

text \<open>
  A long-running command that writes nothing before it ends returns the empty
  output and its exit status.
\<close>

lemma exec_long_returns_without_output:
  assumes "long_running k" "run_once self \<longrightarrow> set_keepalive rem = None"
    "open_session rem (sudo k) (cmd k) = Inr channel"
    "\<forall>j<n. quiet (channel j)" "channel n = ExitStatusReady ec"
  shows "\<exists>lg. CephNode_exec_command rem k self = Some (Inr (Output [] ec), self, lg)"
proof -
  let ?acc = "([] :: string, [Info ''Running command %s on %s'' [ArgS (cmd k), ArgS (ip_address self)],
               Info ''long running command --'' []])"
  have "poll_channel channel 0 ?acc = poll_channel channel n ?acc"
    using poll_channel_quiet [of n channel 0 ?acc] assms(4) by simp
  also have "\<dots> = Some (Inr ([], ec), snd ?acc)"
    using poll_channel_exit [of channel n ec ?acc] assms(5) by simp
  finally show ?thesis
    using assms(1,2,3) by (auto simp: CephNode_exec_command_def Let_def)
qed

text \<open>
  A long-running command that writes something raises \<^verbatim>\<open>TypeError\<close> at the
  first data received, whatever its exit status would be.
\<close>

lemma exec_long_raises_on_output:
  assumes "long_running k" "run_once self \<longrightarrow> set_keepalive rem = None"
    "open_session rem (sudo k) (cmd k) = Inr channel"
    "\<forall>j<n. quiet (channel j)" "channel n = Select rl xl" "rl \<noteq> None \<or> xl \<noteq> None"
  shows "\<exists>lg. CephNode_exec_command rem k self
           = Some (Inl (TypeError ''can only concatenate str (not bytes) to str''), self, lg)"
proof -
  let ?acc = "([] :: string, [Info ''Running command %s on %s'' [ArgS (cmd k), ArgS (ip_address self)],
               Info ''long running command --'' []])"
  have "poll_channel channel 0 ?acc = poll_channel channel n ?acc"
    using poll_channel_quiet [of n channel 0 ?acc] assms(4) by simp
  also have "\<dots> = Some (Inl (TypeError ''can only concatenate str (not bytes) to str''), snd ?acc)"
    using poll_channel_data [of channel n rl xl ?acc] assms(5,6) by simp
  finally show ?thesis
    using assms(1,2,3) by (auto simp: CephNode_exec_command_def Let_def)
qed

text \<open>
  C3 (as the code has it).  In the standard mode, an \<^verbatim>\<open>SSHException\<close> raised
  when the command is submitted is logged and is not raised again, whatever its
  message; the channel-open-timeout substring decides only whether the second
  line, \<^verbatim>\<open>channel reset error\<close>, is logged too.
\<close>

theorem exec_command_ssh_exception_not_reraised:
  assumes "\<not> long_running k" "run_once self \<longrightarrow> set_keepalive rem = None"
    "exec_command rem (sudo k) (cmd k) (timeout_of k) = Inl (SSHException m)"
  shows "\<exists>res lg. CephNode_exec_command rem k self = Some (res, self, lg)
      \<and> res \<noteq> Inl (Raised (SSHException m))
      \<and> Error ''Exception during cmd %s'' [ArgS m] \<in> set lg
      \<and> (Error ''channel reset error'' [] \<in> set lg
           \<longleftrightarrow> sublist ''Timeout openning channel'' m)"
  using assms by (auto simp: CephNode_exec_command_def read_exit_status_def Let_def)

theorem exec_command_ssh_exception_not_reraised_witness:
  "\<exists>res lg. CephNode_exec_command
        (answering (Inl (SSHException ''Timeout openning channel.''))) uptime node1
      = Some (res, node1, lg)
      \<and> res \<noteq> Inl (Raised (SSHException ''Timeout openning channel.''))
      \<and> Error ''Exception during cmd %s'' [ArgS ''Timeout openning channel.''] \<in> set lg
      \<and> Error ''channel reset error'' [] \<in> set lg"
  using exec_command_ssh_exception_not_reraised
    [of uptime node1 "answering (Inl (SSHException ''Timeout openning channel.''))"
        "''Timeout openning channel.''"]
  by (simp add: uptime_def answering_def node1_def)

text \<open>
  An \<^verbatim>\<open>SSHException\<close> whose message does not contain the substring does not
  reach the caller either: the call goes on to read the exit status of a stream
  that was never set.
\<close>

theorem exec_command_other_ssh_exception_counterexample:
  "\<not> sublist ''Timeout openning channel'' ''Connection lost''
   \<and> CephNode_exec_command (answering (Inl (SSHException ''Connection lost''))) uptime node1
     = Some (Inl (AttributeError ''channel''), node1,
         [Info ''Running command %s on %s'' [ArgS ''uptime'', ArgS ''10.0.0.1''],
          Error ''Exception during cmd %s'' [ArgS ''Connection lost'']])"
  by (simp add: CephNode_exec_command_def read_exit_status_def uptime_def answering_def
      node1_def timeout_of_def sublist_Cons_right)

text \<open>
  C6.  In the standard mode, for a command that was submitted and whose exit
  status is \<open>recv_exit_status st\<close>: with \<^verbatim>\<open>check_ec\<close> true or absent, status 0
  returns the two streams and any other status raises \<^verbatim>\<open>CommandFailed\<close> with
  the command text, the captured stderr and the address of the node in its
  message; with \<^verbatim>\<open>check_ec\<close> false the two streams are returned whatever the
  status.  The status is recorded on the node in every case.
\<close>

theorem exec_command_check_ec:
  assumes "\<not> long_running k" "run_once self \<longrightarrow> set_keepalive rem = None"
    "exec_command rem (sudo k) (cmd k) (timeout_of k) = Inr st"
  shows "\<exists>lg. CephNode_exec_command rem k self =
      Some (if check_ec_of k \<and> recv_exit_status st \<noteq> 0
            then Inl (CommandFailed (cmd k @ '' Error:  '' @ stderr st @ '' '' @ ip_address self))
            else Inr (Streams (stdout st) (stderr st)),
            self\<lparr>exit_status := Some (recv_exit_status st)\<rparr>, lg)"
  using assms by (auto simp: CephNode_exec_command_def read_exit_status_def Let_def)

theorem exec_command_check_ec_witness:
  "(\<exists>lg. CephNode_exec_command
        (answering (Inr \<lparr>stdout = ''out'', stderr = ''boom'', recv_exit_status = 1\<rparr>))
        uptime node1
      = Some (Inl (CommandFailed ''uptime Error:  boom 10.0.0.1''),
              node1\<lparr>exit_status := Some 1\<rparr>, lg))
   \<and> (\<exists>lg. CephNode_exec_command
        (answering (Inr \<lparr>stdout = ''out'', stderr = ''boom'', recv_exit_status = 1\<rparr>))
        (uptime\<lparr>check_ec := Some False\<rparr>) node1
      = Some (Inr (Streams ''out'' ''boom''), node1\<lparr>exit_status := Some 1\<rparr>, lg))"
  using exec_command_check_ec
    [of uptime node1 "answering (Inr \<lparr>stdout = ''out'', stderr = ''boom'', recv_exit_status = 1\<rparr>)"
        "\<lparr>stdout = ''out'', stderr = ''boom'', recv_exit_status = 1\<rparr>"]
    exec_command_check_ec
    [of "uptime\<lparr>check_ec := Some False\<rparr>" node1
        "answering (Inr \<lparr>stdout = ''out'', stderr = ''boom'', recv_exit_status = 1\<rparr>)"
        "\<lparr>stdout = ''out'', stderr = ''boom'', recv_exit_status = 1\<rparr>"]
  by (simp add: uptime_def answering_def node1_def check_ec_of_def)

text \<open>
  C7, on a command whose first poll delivers the data \<^verbatim>\<open>ab\<close>: the call does
  not return the pair of the output and the exit status, it raises
  \<^verbatim>\<open>TypeError\<close> at \<^verbatim>\<open>read = read + data\<close>.
\<close>

theorem exec_command_long_running_raises_on_output:
  "CephNode_exec_command (streaming three_polls) (uptime\<lparr>long_running := True\<rparr>) node1
     = Some (Inl (TypeError ''can only concatenate str (not bytes) to str''), node1,
         [Info ''Running command %s on %s'' [ArgS ''uptime'', ArgS ''10.0.0.1''],
          Info ''long running command --'' []])"
  by (simp add: CephNode_exec_command_def uptime_def streaming_def node1_def three_polls_def
      poll_channel.simps str_plus_bytes_def)

end
